theory Spec2Isabelle
  imports Main
begin

section \<open>JavaScript strings\<close>

text \<open>
  The voice inventory component (\<^verbatim>\<open>src/App.js\<close>) works on JavaScript strings. A string
  is modelled as a list of 8-bit characters, read as the code units U+0000 to U+00FF;
  within that range every built-in used by the component (\<^verbatim>\<open>toLowerCase\<close>,
  \<^verbatim>\<open>trim\<close>, \<^verbatim>\<open>includes\<close>, \<^verbatim>\<open>parseInt\<close>, the regular expression classes) acts
  one code unit at a time, as written below. Transcripts with code units above U+00FF
  are outside the model. JavaScript numbers are modelled as mathematical integers,
  which is what they are for integral values up to \<open>2 ^ 53\<close>.
\<close>

definition code_unit :: "char \<Rightarrow> nat" where
  "code_unit c = of_char c"

text \<open>
  \<^verbatim>\<open>String.prototype.toLowerCase\<close> on one code unit: A to Z, and the Latin-1 capitals
  U+00C0 to U+00DE without the multiplication sign U+00D7, move up by 32.
\<close>

definition toLowerCase_char :: "char \<Rightarrow> char" where
  "toLowerCase_char c =
     (let n = code_unit c
      in if (65 \<le> n \<and> n \<le> 90) \<or> (192 \<le> n \<and> n \<le> 222 \<and> n \<noteq> 215)
         then char_of (n + 32) else c)"

definition toLowerCase :: "string \<Rightarrow> string" where
  "toLowerCase s = map toLowerCase_char s"

text \<open>
  White space and line terminators of ECMAScript below U+0100: TAB, LF, VT, FF, CR,
  SPACE and NO-BREAK SPACE. This is the set of \<^verbatim>\<open>\s\<close>, of \<^verbatim>\<open>trim\<close> and of the
  leading white space that \<^verbatim>\<open>parseInt\<close> skips.
\<close>

definition is_space :: "char \<Rightarrow> bool" where
  "is_space c = (code_unit c \<in> {9, 10, 11, 12, 13, 32, 160})"

definition is_digit :: "char \<Rightarrow> bool" where
  "is_digit c = (48 \<le> code_unit c \<and> code_unit c \<le> 57)"

definition is_line_terminator :: "char \<Rightarrow> bool" where
  "is_line_terminator c = (code_unit c \<in> {10, 13})"

definition trim :: "string \<Rightarrow> string" where
  "trim s = rev (dropWhile is_space (rev (dropWhile is_space s)))"

fun startsWith :: "string \<Rightarrow> string \<Rightarrow> bool" where
  "startsWith s [] = True"
| "startsWith [] (y # ys) = False"
| "startsWith (x # xs) (y # ys) = (x = y \<and> startsWith xs ys)"

text \<open>\<^verbatim>\<open>s.includes(t)\<close>: \<open>t\<close> occurs in \<open>s\<close> at some position.\<close>

fun includes_str :: "string \<Rightarrow> string \<Rightarrow> bool" where
  "includes_str [] t = startsWith [] t"
| "includes_str (x # xs) t = (startsWith (x # xs) t \<or> includes_str xs t)"

text \<open>
  \<^verbatim>\<open>parseInt(string)\<close> with no radix: skip leading white space, read a sign, read the
  prefix \<^verbatim>\<open>0x\<close> or \<^verbatim>\<open>0X\<close> (radix 16, otherwise radix 10), take the longest run
  of digits of the radix; an empty run is NaN, here \<open>None\<close>.
\<close>

definition digit_value :: "char \<Rightarrow> nat" where
  "digit_value c =
     (let n = code_unit c
      in if 48 \<le> n \<and> n \<le> 57 then n - 48
         else if 97 \<le> n \<and> n \<le> 102 then n - 87
         else if 65 \<le> n \<and> n \<le> 70 then n - 55
         else 16)"

definition digits_value :: "nat \<Rightarrow> string \<Rightarrow> nat" where
  "digits_value R z = foldl (\<lambda>acc c. acc * R + digit_value c) 0 z"

definition parseInt :: "string \<Rightarrow> int option" where
  "parseInt inputString =
     (let S = dropWhile is_space inputString;
          sign = (if S \<noteq> [] \<and> hd S = CHR ''-'' then - 1 else 1 :: int);
          S1 = (if S \<noteq> [] \<and> (hd S = CHR ''+'' \<or> hd S = CHR ''-'') then tl S else S);
          hex = (startsWith S1 ''0x'' \<or> startsWith S1 ''0X'');
          R = (if hex then 16 else 10 :: nat);
          S2 = (if hex then drop 2 S1 else S1);
          Z = takeWhile (\<lambda>c. digit_value c < R) S2
      in if Z = [] then None else Some (sign * int (digits_value R Z)))"

section \<open>Regular expressions\<close>

text \<open>
  The four command patterns and the test for \<^verbatim>\<open>add\<close> are regular expression literals
  with the flag \<^verbatim>\<open>i\<close>. They are built from single characters, the classes
  \<^verbatim>\<open>\s\<close>, \<^verbatim>\<open>\d\<close> and \<^verbatim>\<open>.\<close>, the quantifiers \<^verbatim>\<open>+\<close> and \<^verbatim>\<open>+?\<close> on a class,
  the optional group \<^verbatim>\<open>(?: )?\<close> and capturing groups. The matcher below is the
  backtracking matcher of ECMAScript for these constructs, in continuation style: a
  continuation receives the rest of the input and the captures so far, and a failed
  continuation makes the matcher try its next alternative. The flag \<^verbatim>\<open>i\<close> changes
  what a single character matches, and nothing for the three classes: below U+0100 no
  code unit outside a class has the canonical form of a member of the class.
\<close>

text \<open>
  Under the flag \<^verbatim>\<open>i\<close> two code units match when their canonical forms agree. The
  canonical form is the upper case code unit; U+00FF and U+00B5 have theirs outside
  Latin-1 (U+0178 and U+039C), and U+00DF and U+00F7 keep themselves.
\<close>

definition canonicalize :: "char \<Rightarrow> nat" where
  "canonicalize c =
     (let n = code_unit c
      in if (97 \<le> n \<and> n \<le> 122) \<or> (224 \<le> n \<and> n \<le> 254 \<and> n \<noteq> 247) then n - 32
         else if n = 255 then 376
         else if n = 181 then 924
         else n)"

datatype cclass = Lit char | Space | Digit | Dot

fun cmatch :: "cclass \<Rightarrow> char \<Rightarrow> bool" where
  "cmatch (Lit a) x = (canonicalize x = canonicalize a)"
| "cmatch Space x = is_space x"
| "cmatch Digit x = is_digit x"
| "cmatch Dot x = (\<not> is_line_terminator x)"

datatype rx =
    Eps
  | Chr cclass
  | Plus cclass
  | PlusLazy cclass
  | Seq rx rx
  | Opt rx
  | Group nat rx

type_synonym captures = "nat \<Rightarrow> string option"

text \<open>\<^verbatim>\<open>c+\<close>: one character of the class, then as many more as possible, giving them
  back one at a time when the continuation fails.\<close>

fun plus_greedy :: "cclass \<Rightarrow> string \<Rightarrow> (string \<Rightarrow> 'a option) \<Rightarrow> 'a option" where
  "plus_greedy c [] k = None"
| "plus_greedy c (x # xs) k =
     (if cmatch c x
      then (case plus_greedy c xs k of Some r \<Rightarrow> Some r | None \<Rightarrow> k xs)
      else None)"

text \<open>\<^verbatim>\<open>c+?\<close>: one character of the class, then the continuation first, and one more
  character only when the continuation fails.\<close>

fun plus_lazy :: "cclass \<Rightarrow> string \<Rightarrow> (string \<Rightarrow> 'a option) \<Rightarrow> 'a option" where
  "plus_lazy c [] k = None"
| "plus_lazy c (x # xs) k =
     (if cmatch c x
      then (case k xs of Some r \<Rightarrow> Some r | None \<Rightarrow> plus_lazy c xs k)
      else None)"

fun rx_match :: "rx \<Rightarrow> string \<Rightarrow> captures \<Rightarrow> (string \<Rightarrow> captures \<Rightarrow> 'a option) \<Rightarrow> 'a option" where
  "rx_match Eps s cs k = k s cs"
| "rx_match (Chr c) s cs k =
     (case s of [] \<Rightarrow> None | x # xs \<Rightarrow> if cmatch c x then k xs cs else None)"
| "rx_match (Plus c) s cs k = plus_greedy c s (\<lambda>s'. k s' cs)"
| "rx_match (PlusLazy c) s cs k = plus_lazy c s (\<lambda>s'. k s' cs)"
| "rx_match (Seq a b) s cs k = rx_match a s cs (\<lambda>s' cs'. rx_match b s' cs' k)"
| "rx_match (Opt a) s cs k =
     (case rx_match a s cs (\<lambda>s' cs'. if length s' = length s then None else k s' cs') of
        Some r \<Rightarrow> Some r
      | None \<Rightarrow> k s cs)"
| "rx_match (Group n a) s cs k =
     rx_match a s cs (\<lambda>s' cs'. k s' (cs'(n := Some (take (length s - length s') s))))"

text \<open>
  \<^verbatim>\<open>str.match(regexp)\<close> for a regular expression without the flag \<^verbatim>\<open>g\<close>: the
  leftmost start position at which the matcher succeeds; the result holds the captures
  (\<^verbatim>\<open>match[n]\<close> is \<open>m n\<close>, and \<open>None\<close> is \<^verbatim>\<open>undefined\<close>). \<open>None\<close> as a result is
  \<^verbatim>\<open>null\<close>.
\<close>

fun rx_exec :: "rx \<Rightarrow> string \<Rightarrow> captures option" where
  "rx_exec r [] = rx_match r [] (\<lambda>n. None) (\<lambda>s' cs. Some cs)"
| "rx_exec r (x # xs) =
     (case rx_match r (x # xs) (\<lambda>n. None) (\<lambda>s' cs. Some cs) of
        Some m \<Rightarrow> Some m
      | None \<Rightarrow> rx_exec r xs)"

definition rx_test :: "rx \<Rightarrow> string \<Rightarrow> bool" where
  "rx_test r s = (rx_exec r s \<noteq> None)"

definition lits :: "string \<Rightarrow> rx" where
  "lits w = foldr (\<lambda>c r. Seq (Chr (Lit c)) r) w Eps"

definition seqs :: "rx list \<Rightarrow> rx" where
  "seqs rs = foldr Seq rs Eps"

section \<open>The inventory and the component state\<close>

type_synonym date = int

record item =
  item_id :: int
  name :: string
  quantity :: int
  unit :: string
  lowStock :: int
  lastUpdated :: date

text \<open>
  The status line is a template literal in the source; some templates hold characters
  above U+00FF, so each template is a constructor that carries the interpolated values:
  \<^item> \<open>StatusUpdated action quantity name before after\<close> is
    \<^verbatim>\<open>"(check mark) ${action} ${quantity} ${item.name}. Stock: ${item.quantity} (arrow) ${newQuantity}"\<close>;
  \<^item> \<open>StatusNotFound itemName availableItems\<close> is
    \<^verbatim>\<open>"(cross) Item "${itemName}" not found. Available items: ${availableItems}"\<close>;
  \<^item> \<open>StatusFailed name\<close> is \<^verbatim>\<open>"(cross) Failed to update ${item.name}. Please try again."\<close>;
  \<^item> \<open>StatusNotUnderstood\<close> is
    \<^verbatim>\<open>'Could not understand command. Try: "I used 5 syringes" or "Add 10 gloves"'\<close>;
  \<^item> \<open>StatusIdle\<close> is \<^verbatim>\<open>'Click the button and speak your inventory update'\<close>.
\<close>

datatype status =
    StatusIdle
  | StatusUpdated string int string int int
  | StatusNotFound string string
  | StatusFailed string
  | StatusNotUnderstood

text \<open>
  The React state that \<^verbatim>\<open>updateInventory\<close> and \<^verbatim>\<open>processVoiceCommand\<close> write:
  \<^verbatim>\<open>inventory\<close>, \<^verbatim>\<open>status\<close> and \<^verbatim>\<open>updatedItemId\<close>. The timer that clears
  \<^verbatim>\<open>updatedItemId\<close> two seconds later is not part of the model.
\<close>

record app_state =
  inventory_st :: "item list"
  status_st :: status
  updatedItemId_st :: "int option"

fun join :: "string \<Rightarrow> string list \<Rightarrow> string" where
  "join sep [] = []"
| "join sep [x] = x"
| "join sep (x # y # ys) = x @ sep @ join sep (y # ys)"

section \<open>The reconciler: \<^verbatim>\<open>updateInventory\<close>\<close>

text \<open>
  The predicate of \<^verbatim>\<open>inventory.find\<close> (lines 98 to 101 and 423 to 426):
  \<^verbatim>\<open>inv.name.toLowerCase().includes(itemName) || itemName.includes(inv.name.toLowerCase())\<close>.
\<close>

definition item_matches :: "string \<Rightarrow> item \<Rightarrow> bool" where
  "item_matches itemName inv' =
     (includes_str (toLowerCase (name inv')) itemName \<or>
      includes_str itemName (toLowerCase (name inv')))"

definition new_quantity :: "bool \<Rightarrow> int \<Rightarrow> int \<Rightarrow> int" where
  "new_quantity isAdding q quantity' = (if isAdding then q + quantity' else max 0 (q - quantity'))"

text \<open>
  The first component (lines 97 to 127). The item is looked up in \<open>inventory\<close>, the
  ledger of the render that created the function; the functional update of
  \<^verbatim>\<open>setInventory\<close> maps over \<open>prevInventory\<close>, the ledger of the state at the time
  of the update. \<open>now\<close> is the value of \<^verbatim>\<open>new Date()\<close>.
\<close>

definition updateInventory ::
  "item list \<Rightarrow> date \<Rightarrow> string \<Rightarrow> int \<Rightarrow> bool \<Rightarrow> app_state \<Rightarrow> app_state" where
  "updateInventory inventory now itemName quantity' isAdding st =
     (case find (item_matches itemName) inventory of
        Some item \<Rightarrow>
          (let action = (if isAdding then ''Added'' else ''Used'');
               newQuantity = new_quantity isAdding (item.quantity item) quantity'
           in st\<lparr>inventory_st :=
                    (\<lambda>prevInventory.
                       map (\<lambda>inv'. if item_id inv' = item_id item
                                  then inv'\<lparr>quantity := new_quantity isAdding (item.quantity inv') quantity',
                                           lastUpdated := now\<rparr>
                                  else inv') prevInventory) (inventory_st st),
                  status_st := StatusUpdated action quantity' (name item) (item.quantity item) newQuantity,
                  updatedItemId_st := Some (item_id item)\<rparr>)
      | None \<Rightarrow>
          (let availableItems = join '', '' (map name inventory)
           in st\<lparr>status_st := StatusNotFound itemName availableItems\<rparr>))"

text \<open>
  The second component (lines 422 to 470) writes to the external store first. The
  answer of the store to the update request for an id, a quantity and a time stamp is
  a parameter: the request succeeds, comes back with an error, or throws; both
  failures end in the \<^verbatim>\<open>catch\<close> block.
\<close>

datatype store_reply = StoreOk | StoreError | StoreThrew

definition updateInventory_supabase ::
  "(int \<Rightarrow> int \<Rightarrow> date \<Rightarrow> store_reply) \<Rightarrow> item list \<Rightarrow> date \<Rightarrow> string \<Rightarrow> int \<Rightarrow> bool
     \<Rightarrow> app_state \<Rightarrow> app_state" where
  "updateInventory_supabase supabase_update inventory now itemName quantity' isAdding st =
     (case find (item_matches itemName) inventory of
        Some item \<Rightarrow>
          (let newQuantity = new_quantity isAdding (item.quantity item) quantity'
           in case supabase_update (item_id item) newQuantity now of
                StoreOk \<Rightarrow>
                  (let action = (if isAdding then ''Added'' else ''Used'')
                   in st\<lparr>inventory_st :=
                            (\<lambda>prevInventory.
                               map (\<lambda>inv'. if item_id inv' = item_id item
                                          then inv'\<lparr>quantity := newQuantity, lastUpdated := now\<rparr>
                                          else inv') prevInventory) (inventory_st st),
                          status_st := StatusUpdated action quantity' (name item) (item.quantity item) newQuantity,
                          updatedItemId_st := Some (item_id item)\<rparr>)
              | _ \<Rightarrow> st\<lparr>status_st := StatusFailed (name item)\<rparr>)
      | None \<Rightarrow>
          (let availableItems = join '', '' (map name inventory)
           in st\<lparr>status_st := StatusNotFound itemName availableItems\<rparr>))"

section \<open>The interpreter: \<^verbatim>\<open>processVoiceCommand\<close>\<close>

text \<open>
  The four patterns of lines 69 to 74 (and 394 to 399), in the order of the array:
  \<^verbatim>\<open>/(?:i\s+)?used\s+(\d+)\s+(.+)/i\<close>,
  \<^verbatim>\<open>/remove\s+(\d+)\s+(.+)/i\<close>,
  \<^verbatim>\<open>/add\s+(\d+)\s+(.+?)(?:\s+to\s+inventory)?/i\<close>,
  \<^verbatim>\<open>/(\d+)\s+(.+?)\s+used/i\<close>.
\<close>

definition pattern_used :: rx where
  "pattern_used =
     seqs [Opt (seqs [lits ''i'', Plus Space]), lits ''used'', Plus Space,
           Group 1 (Plus Digit), Plus Space, Group 2 (Plus Dot)]"

definition pattern_remove :: rx where
  "pattern_remove =
     seqs [lits ''remove'', Plus Space, Group 1 (Plus Digit), Plus Space, Group 2 (Plus Dot)]"

definition pattern_add :: rx where
  "pattern_add =
     seqs [lits ''add'', Plus Space, Group 1 (Plus Digit), Plus Space, Group 2 (PlusLazy Dot),
           Opt (seqs [Plus Space, lits ''to'', Plus Space, lits ''inventory''])]"

definition pattern_n_used :: rx where
  "pattern_n_used =
     seqs [Group 1 (Plus Digit), Plus Space, Group 2 (PlusLazy Dot), Plus Space, lits ''used'']"

definition patterns :: "rx list" where
  "patterns = [pattern_used, pattern_remove, pattern_add, pattern_n_used]"

text \<open>
  The loop of lines 78 to 89 stops at the first pattern that matches and calls
  \<^verbatim>\<open>updateInventory(itemName, quantity, isAdding)\<close>; \<open>Call\<close> holds the three
  arguments. \<^verbatim>\<open>parseInt(undefined)\<close> is NaN and \<^verbatim>\<open>undefined.trim()\<close> throws a
  TypeError. NaN and the TypeError are results of their own (\<open>Abort\<close>), so that the
  model never computes with a number that is not an integer; \<open>try_patterns_no_abort\<close>
  below shows that neither can happen.
\<close>

datatype js_abort = NotANumber | TypeError

datatype parse_result = NoMatch | Call string int bool | Abort js_abort

fun try_patterns :: "rx list \<Rightarrow> string \<Rightarrow> parse_result" where
  "try_patterns [] lowerCommand = NoMatch"
| "try_patterns (pattern # rest) lowerCommand =
     (case rx_exec pattern lowerCommand of
        None \<Rightarrow> try_patterns rest lowerCommand
      | Some match \<Rightarrow>
          (case (case match 1 of None \<Rightarrow> None | Some g \<Rightarrow> parseInt g) of
             None \<Rightarrow> Abort NotANumber
           | Some quantity' \<Rightarrow>
               (case match 2 of
                  None \<Rightarrow> Abort TypeError
                | Some g \<Rightarrow>
                    (let itemName = trim g;
                         isAdding = rx_test (lits ''add'') lowerCommand
                     in Call itemName quantity' isAdding))))"

definition processVoiceCommand ::
  "item list \<Rightarrow> date \<Rightarrow> string \<Rightarrow> app_state \<Rightarrow> js_abort + app_state" where
  "processVoiceCommand inventory now command st =
     (let lowerCommand = toLowerCase command
      in case try_patterns patterns lowerCommand of
           Call itemName quantity' isAdding \<Rightarrow>
             Inr (updateInventory inventory now itemName quantity' isAdding st)
         | NoMatch \<Rightarrow> Inr (st\<lparr>status_st := StatusNotUnderstood\<rparr>)
         | Abort e \<Rightarrow> Inl e)"

definition processVoiceCommand_supabase ::
  "(int \<Rightarrow> int \<Rightarrow> date \<Rightarrow> store_reply) \<Rightarrow> item list \<Rightarrow> date \<Rightarrow> string \<Rightarrow> app_state
     \<Rightarrow> js_abort + app_state" where
  "processVoiceCommand_supabase supabase_update inventory now command st =
     (let lowerCommand = toLowerCase command
      in case try_patterns patterns lowerCommand of
           Call itemName quantity' isAdding \<Rightarrow>
             Inr (updateInventory_supabase supabase_update inventory now itemName quantity' isAdding st)
         | NoMatch \<Rightarrow> Inr (st\<lparr>status_st := StatusNotUnderstood\<rparr>)
         | Abort e \<Rightarrow> Inl e)"

text \<open>The ledger of line 6 to 12, with one time stamp \<open>t0\<close> for the five items.\<close>

definition seed_inventory :: "date \<Rightarrow> item list" where
  "seed_inventory t0 =
     [\<lparr>item_id = 1, name = ''Syringes'', quantity = 25, unit = ''pieces'', lowStock = 10, lastUpdated = t0\<rparr>,
      \<lparr>item_id = 2, name = ''Bandages'', quantity = 15, unit = ''rolls'', lowStock = 5, lastUpdated = t0\<rparr>,
      \<lparr>item_id = 3, name = ''Lidocaine'', quantity = 8, unit = ''vials'', lowStock = 3, lastUpdated = t0\<rparr>,
      \<lparr>item_id = 4, name = ''Gloves'', quantity = 50, unit = ''pairs'', lowStock = 20, lastUpdated = t0\<rparr>,
      \<lparr>item_id = 5, name = ''Gauze'', quantity = 12, unit = ''packs'', lowStock = 5, lastUpdated = t0\<rparr>]"

text \<open>Example data: the seed ledger as a state, a ledger holding only the gloves, and
  the lidocaine item.\<close>

definition st0 :: app_state where
  "st0 = \<lparr>inventory_st = seed_inventory 0, status_st = StatusIdle, updatedItemId_st = None\<rparr>"

definition gloves_only :: "item list" where
  "gloves_only =
     [\<lparr>item_id = 4, name = ''Gloves'', quantity = 50, unit = ''pairs'', lowStock = 20, lastUpdated = 0\<rparr>]"

definition lidocaine :: item where
  "lidocaine =
     \<lparr>item_id = 3, name = ''Lidocaine'', quantity = 8, unit = ''vials'', lowStock = 3, lastUpdated = 0\<rparr>"

section \<open>What a match consists of\<close>

text \<open>
  The relation \<open>rx_rel r s cs s' cs'\<close> describes one way for \<open>r\<close> to match a prefix of
  \<open>s\<close>, leaving \<open>s'\<close> and turning the captures \<open>cs\<close> into \<open>cs'\<close>. Every result of
  the backtracking matcher is such a match (\<open>rx_match_sound\<close>); the relation is used
  to reason about all inputs at once.
\<close>

fun rx_rel :: "rx \<Rightarrow> string \<Rightarrow> captures \<Rightarrow> string \<Rightarrow> captures \<Rightarrow> bool" where
  "rx_rel Eps s cs s' cs' = (s' = s \<and> cs' = cs)"
| "rx_rel (Chr c) s cs s' cs' = (\<exists>x. s = x # s' \<and> cmatch c x \<and> cs' = cs)"
| "rx_rel (Plus c) s cs s' cs' =
     (\<exists>ys. ys \<noteq> [] \<and> s = ys @ s' \<and> (\<forall>y\<in>set ys. cmatch c y) \<and> cs' = cs)"
| "rx_rel (PlusLazy c) s cs s' cs' =
     (\<exists>ys. ys \<noteq> [] \<and> s = ys @ s' \<and> (\<forall>y\<in>set ys. cmatch c y) \<and> cs' = cs)"
| "rx_rel (Seq a b) s cs s' cs' = (\<exists>t ct. rx_rel a s cs t ct \<and> rx_rel b t ct s' cs')"
| "rx_rel (Opt a) s cs s' cs' = (rx_rel a s cs s' cs' \<or> (s' = s \<and> cs' = cs))"
| "rx_rel (Group n a) s cs s' cs' =
     (\<exists>c1. rx_rel a s cs s' c1 \<and> cs' = c1(n := Some (take (length s - length s') s)))"

text \<open>
  Both groups took part in the match, and the first one is a non-empty run of decimal
  digits taken from the input \<open>t\<close>.
\<close>

definition caps_ok :: "string \<Rightarrow> captures \<Rightarrow> bool" where
  "caps_ok t m =
     (\<exists>g1 g2. m 1 = Some g1 \<and> m 2 = Some g2 \<and> g1 \<noteq> [] \<and> (\<forall>c\<in>set g1. is_digit c) \<and>
        (\<exists>pre post. t = pre @ g1 @ post))"

text \<open>No code unit of the string is one of A to Z.\<close>

definition no_upper :: "string \<Rightarrow> bool" where
  "no_upper s = (\<forall>c\<in>set s. \<not> (65 \<le> code_unit c \<and> code_unit c \<le> 90))"

section \<open>Facts about strings\<close>

lemma startsWith_iff: "startsWith s t \<longleftrightarrow> (\<exists>post. s = t @ post)"
  by (induction s t rule: startsWith.induct) auto

lemma includes_str_iff: "includes_str s t \<longleftrightarrow> (\<exists>pre post. s = pre @ t @ post)"
proof (induction s)
  case Nil
  then show ?case by (auto simp: startsWith_iff)
next
  case (Cons x xs)
  show ?case
  proof
    assume "includes_str (x # xs) t"
    then consider "startsWith (x # xs) t" | "includes_str xs t" by auto
    then show "\<exists>pre post. x # xs = pre @ t @ post"
    proof cases
      case 1
      then obtain post where "x # xs = t @ post" by (auto simp: startsWith_iff)
      then have "x # xs = [] @ t @ post" by simp
      then show ?thesis by blast
    next
      case 2
      with Cons obtain pre post where "xs = pre @ t @ post" by auto
      then have "x # xs = (x # pre) @ t @ post" by simp
      then show ?thesis by blast
    qed
  next
    assume "\<exists>pre post. x # xs = pre @ t @ post"
    then obtain pre post where e: "x # xs = pre @ t @ post" by auto
    show "includes_str (x # xs) t"
    proof (cases pre)
      case Nil
      with e have "startsWith (x # xs) t" by (auto simp: startsWith_iff)
      then show ?thesis by simp
    next
      case (Cons p ps)
      with e have "xs = ps @ t @ post" by simp
      with Cons.IH have "includes_str xs t" by blast
      then show ?thesis by simp
    qed
  qed
qed

lemma plus_greedy_sound:
  "plus_greedy c s k = Some res \<Longrightarrow>
     \<exists>ys s'. ys \<noteq> [] \<and> s = ys @ s' \<and> (\<forall>y\<in>set ys. cmatch c y) \<and> k s' = Some res"
proof (induction s)
  case Nil
  then show ?case by simp
next
  case (Cons x xs)
  from Cons.prems have cx: "cmatch c x" by (auto split: if_splits)
  show ?case
  proof (cases "plus_greedy c xs k")
    case None
    with Cons.prems cx have "k xs = Some res" by simp
    with cx have "[x] \<noteq> [] \<and> x # xs = [x] @ xs \<and> (\<forall>y\<in>set [x]. cmatch c y) \<and> k xs = Some res"
      by simp
    then show ?thesis by blast
  next
    case (Some r)
    with Cons.prems cx have "plus_greedy c xs k = Some res" by simp
    from Cons.IH[OF this] obtain ys s' where
      h: "ys \<noteq> []" "xs = ys @ s'" "\<forall>y\<in>set ys. cmatch c y" "k s' = Some res" by blast
    with cx have "x # ys \<noteq> [] \<and> x # xs = (x # ys) @ s' \<and> (\<forall>y\<in>set (x # ys). cmatch c y) \<and> k s' = Some res"
      by simp
    then show ?thesis by blast
  qed
qed

lemma plus_lazy_sound:
  "plus_lazy c s k = Some res \<Longrightarrow>
     \<exists>ys s'. ys \<noteq> [] \<and> s = ys @ s' \<and> (\<forall>y\<in>set ys. cmatch c y) \<and> k s' = Some res"
proof (induction s)
  case Nil
  then show ?case by simp
next
  case (Cons x xs)
  from Cons.prems have cx: "cmatch c x" by (auto split: if_splits)
  show ?case
  proof (cases "k xs")
    case (Some r)
    with Cons.prems cx have "k xs = Some res" by simp
    with cx have "[x] \<noteq> [] \<and> x # xs = [x] @ xs \<and> (\<forall>y\<in>set [x]. cmatch c y) \<and> k xs = Some res"
      by simp
    then show ?thesis by blast
  next
    case None
    with Cons.prems cx have "plus_lazy c xs k = Some res" by simp
    from Cons.IH[OF this] obtain ys s' where
      h: "ys \<noteq> []" "xs = ys @ s'" "\<forall>y\<in>set ys. cmatch c y" "k s' = Some res" by blast
    with cx have "x # ys \<noteq> [] \<and> x # xs = (x # ys) @ s' \<and> (\<forall>y\<in>set (x # ys). cmatch c y) \<and> k s' = Some res"
      by simp
    then show ?thesis by blast
  qed
qed

lemma rx_match_sound:
  "rx_match r s cs k = Some res \<Longrightarrow> \<exists>s' cs'. rx_rel r s cs s' cs' \<and> k s' cs' = Some res"
proof (induction r arbitrary: s cs k)
  case Eps
  then show ?case by simp
next
  case (Chr c)
  then show ?case by (cases s) (auto split: if_splits)
next
  case (Plus c)
  then show ?case using plus_greedy_sound[of c s "\<lambda>s'. k s' cs" res] by auto
next
  case (PlusLazy c)
  then show ?case using plus_lazy_sound[of c s "\<lambda>s'. k s' cs" res] by auto
next
  case (Seq a b)
  from Seq.prems have "rx_match a s cs (\<lambda>s' cs'. rx_match b s' cs' k) = Some res" by simp
  from Seq.IH(1)[OF this] obtain t ct where
    1: "rx_rel a s cs t ct" and "rx_match b t ct k = Some res" by blast
  from Seq.IH(2)[OF this(2)] obtain s' cs' where "rx_rel b t ct s' cs'" "k s' cs' = Some res" by blast
  with 1 show ?case by auto
next
  case (Opt a)
  let ?k = "\<lambda>s' cs'. if length s' = length s then None else k s' cs'"
  show ?case
  proof (cases "rx_match a s cs ?k")
    case None
    with Opt.prems have "k s cs = Some res" by simp
    then show ?thesis by auto
  next
    case (Some r)
    with Opt.prems have "rx_match a s cs ?k = Some res" by simp
    from Opt.IH[OF this] obtain s' cs' where "rx_rel a s cs s' cs'" "?k s' cs' = Some res" by blast
    then show ?thesis by (auto split: if_splits)
  qed
next
  case (Group n a)
  from Group.prems
  have "rx_match a s cs (\<lambda>s' cs'. k s' (cs'(n := Some (take (length s - length s') s)))) = Some res"
    by simp
  from Group.IH[OF this] obtain s' c1 where
    h: "rx_rel a s cs s' c1" "k s' (c1(n := Some (take (length s - length s') s))) = Some res"
    by blast
  from h(1) have "rx_rel (Group n a) s cs s' (c1(n := Some (take (length s - length s') s)))"
    by auto
  with h(2) show ?case by blast
qed

lemma rx_exec_sound:
  "rx_exec r s = Some m \<Longrightarrow> \<exists>pre t s'. s = pre @ t \<and> rx_rel r t (\<lambda>n. None) s' m"
proof (induction s)
  case Nil
  then have "rx_match r [] (\<lambda>n. None) (\<lambda>s' cs. Some cs) = Some m" by simp
  from rx_match_sound[OF this] show ?case by auto
next
  case (Cons x xs)
  show ?case
  proof (cases "rx_match r (x # xs) (\<lambda>n. None) (\<lambda>s' cs. Some cs)")
    case None
    with Cons.prems have "rx_exec r xs = Some m" by simp
    from Cons.IH[OF this] obtain pre t s' where "xs = pre @ t" "rx_rel r t (\<lambda>n. None) s' m" by blast
    then have "x # xs = (x # pre) @ t \<and> rx_rel r t (\<lambda>n. None) s' m" by simp
    then show ?thesis by blast
  next
    case (Some m')
    with Cons.prems have "rx_match r (x # xs) (\<lambda>n. None) (\<lambda>s' cs. Some cs) = Some m" by simp
    from rx_match_sound[OF this] obtain s' where "rx_rel r (x # xs) (\<lambda>n. None) s' m" by auto
    then have "x # xs = [] @ (x # xs) \<and> rx_rel r (x # xs) (\<lambda>n. None) s' m" by simp
    then show ?thesis by blast
  qed
qed



lemma pattern_used_caps: "rx_rel pattern_used t (\<lambda>n. None) s' m \<Longrightarrow> caps_ok t m"
  unfolding caps_ok_def
  apply (clarsimp simp: pattern_used_def seqs_def lits_def)
  apply (erule disjE)
   apply clarsimp
   apply (metis append.assoc append_Cons)
  apply clarsimp
  apply (metis append.assoc append_Cons)
  done

lemma pattern_remove_caps: "rx_rel pattern_remove t (\<lambda>n. None) s' m \<Longrightarrow> caps_ok t m"
  unfolding caps_ok_def
  apply (clarsimp simp: pattern_remove_def seqs_def lits_def)
  apply (metis append.assoc append_Cons)
  done

lemma pattern_add_caps: "rx_rel pattern_add t (\<lambda>n. None) s' m \<Longrightarrow> caps_ok t m"
  unfolding caps_ok_def
  apply (clarsimp simp: pattern_add_def seqs_def lits_def)
  apply (erule disjE)
   apply clarsimp
   apply (metis append.assoc append_Cons)
  apply clarsimp
  apply (metis append.assoc append_Cons)
  done

lemma pattern_n_used_caps: "rx_rel pattern_n_used t (\<lambda>n. None) s' m \<Longrightarrow> caps_ok t m"
  unfolding caps_ok_def
  apply (clarsimp simp: pattern_n_used_def seqs_def lits_def)
  apply (metis append.assoc append_Nil)
  done

lemma digit_not_space: "is_digit c \<Longrightarrow> \<not> is_space c"
  by (auto simp: is_digit_def is_space_def)

lemma digit_value_digit: "is_digit c \<Longrightarrow> digit_value c < 10"
  by (auto simp: is_digit_def digit_value_def Let_def)

lemma code_units: "code_unit (CHR ''-'') = 45" "code_unit (CHR ''+'') = 43"
   "code_unit (CHR ''x'') = 120" "code_unit (CHR ''X'') = 88" "code_unit (CHR ''0'') = 48"
  by (simp_all add: code_unit_def)

lemma digit_not_sign: "is_digit x \<Longrightarrow> x \<noteq> CHR ''-'' \<and> x \<noteq> CHR ''+'' \<and> x \<noteq> CHR ''x'' \<and> x \<noteq> CHR ''X''"
  using code_units by (auto simp: is_digit_def)

lemma parseInt_digits:
  assumes "g \<noteq> []" and "\<forall>c\<in>set g. is_digit c"
  shows "parseInt g = Some (int (digits_value 10 g))"
proof -
  from assms obtain x xs where g: "g = x # xs" by (cases g) auto
  with assms have dx: "is_digit x" by simp
  from dx have nsp: "\<not> is_space x" by (rule digit_not_space)
  from digit_not_sign[OF dx] have nsign: "x \<noteq> CHR ''-''" "x \<noteq> CHR ''+''" by simp_all
  have nx: "\<not> startsWith xs ''x''" "\<not> startsWith xs ''X''"
  proof -
    { fix y assume y: "y = CHR ''x'' \<or> y = CHR ''X''" and "y \<in> set xs"
      with assms(2) g have "is_digit y" by simp
      from digit_not_sign[OF this] y have False by blast }
    then show "\<not> startsWith xs ''x''" "\<not> startsWith xs ''X''"
      by (cases xs; auto)+
  qed
  then have hexF: "(startsWith (x # xs) ''0x'' \<or> startsWith (x # xs) ''0X'') = False"
    by simp
  have tw: "takeWhile (\<lambda>c. digit_value c < 10) (x # xs) = x # xs"
    using assms(2) g by (simp add: digit_value_digit)
  have dw: "dropWhile is_space (x # xs) = x # xs" using nsp by simp
  have "parseInt (x # xs) = Some (int (digits_value 10 (x # xs)))"
    unfolding parseInt_def Let_def dw
    by (simp only: list.sel nsign hexF tw if_False simp_thms list.distinct mult_1 of_nat_id)
  with g show ?thesis by simp
qed

lemma code_unit_lt_256: "code_unit c < 256"
  unfolding code_unit_def
  by (metis of_char_mod_256 mod_less_divisor zero_less_numeral)

lemma code_unit_char_of: "n < 256 \<Longrightarrow> code_unit (char_of n) = n"
  by (simp add: code_unit_def)

lemma code_unit_inj: "code_unit x = code_unit y \<Longrightarrow> x = y"
  by (simp add: code_unit_def)

lemma toLowerCase_char_not_upper:
  "\<not> (65 \<le> code_unit (toLowerCase_char c) \<and> code_unit (toLowerCase_char c) \<le> 90)"
  by (auto simp: toLowerCase_char_def Let_def code_unit_char_of)

lemma toLowerCase_char_idem: "toLowerCase_char (toLowerCase_char c) = toLowerCase_char c"
proof -
  have "code_unit c < 256" by (rule code_unit_lt_256)
  then show ?thesis
    by (auto simp: toLowerCase_char_def Let_def code_unit_char_of)
qed

lemma toLowerCase_idem: "toLowerCase (toLowerCase s) = toLowerCase s"
  by (simp add: toLowerCase_def toLowerCase_char_idem)

lemma canon_a: "canonicalize (CHR ''a'') = 65" and canon_d: "canonicalize (CHR ''d'') = 68"
  by (simp_all add: canonicalize_def code_unit_def)

lemma canonicalize_lower_a:
  assumes "\<not> (65 \<le> code_unit x \<and> code_unit x \<le> 90)"
  shows "canonicalize x = 65 \<longleftrightarrow> x = CHR ''a''"
proof
  assume "canonicalize x = 65"
  with assms have "code_unit x = 97"
    by (auto simp: canonicalize_def Let_def split: if_splits)
  then have "code_unit x = code_unit (CHR ''a'')" by (simp add: code_unit_def)
  then show "x = CHR ''a''" by (rule code_unit_inj)
next
  assume "x = CHR ''a''" then show "canonicalize x = 65" by (simp add: canon_a)
qed

lemma canonicalize_lower_d:
  assumes "\<not> (65 \<le> code_unit x \<and> code_unit x \<le> 90)"
  shows "canonicalize x = 68 \<longleftrightarrow> x = CHR ''d''"
proof
  assume "canonicalize x = 68"
  with assms have "code_unit x = 100"
    by (auto simp: canonicalize_def Let_def split: if_splits)
  then have "code_unit x = code_unit (CHR ''d'')" by (simp add: code_unit_def)
  then show "x = CHR ''d''" by (rule code_unit_inj)
next
  assume "x = CHR ''d''" then show "canonicalize x = 68" by (simp add: canon_d)
qed

lemma no_upper_toLowerCase: "no_upper (toLowerCase s)"
  using toLowerCase_char_not_upper by (auto simp: no_upper_def toLowerCase_def)

lemma rx_match_add:
  assumes "no_upper t"
  shows "(rx_match (lits ''add'') t cs (\<lambda>s' cs. Some cs) \<noteq> None) = startsWith t ''add''"
proof (cases t)
  case Nil
  then show ?thesis by (simp add: lits_def)
next
  case t1: (Cons x1 t1)
  show ?thesis
  proof (cases t1)
    case Nil
    with t1 assms show ?thesis
      by (simp add: lits_def canon_a canon_d no_upper_def canonicalize_lower_a)
  next
    case t2: (Cons x2 t2)
    show ?thesis
    proof (cases t2)
      case Nil
      with t1 t2 assms show ?thesis
        by (simp add: lits_def canon_a canon_d no_upper_def canonicalize_lower_a canonicalize_lower_d)
    next
      case (Cons x3 t3)
      with t1 t2 assms show ?thesis
        by (simp add: lits_def canon_a canon_d no_upper_def canonicalize_lower_a canonicalize_lower_d)
    qed
  qed
qed

lemma no_upper_Cons: "no_upper (x # xs) \<Longrightarrow> no_upper xs"
  by (simp add: no_upper_def)

lemma rx_test_add:
  "no_upper s \<Longrightarrow> rx_test (lits ''add'') s = includes_str s ''add''"
proof (induction s)
  case Nil
  then show ?case by (simp add: rx_test_def lits_def)
next
  case (Cons x xs)
  from Cons have ih: "rx_test (lits ''add'') xs = includes_str xs ''add''"
    using no_upper_Cons by blast
  from rx_match_add[OF Cons.prems, of "\<lambda>n. None"]
  have m: "(rx_match (lits ''add'') (x # xs) (\<lambda>n. None) (\<lambda>s' cs. Some cs) \<noteq> None) = startsWith (x # xs) ''add''" .
  show ?case
  proof (cases "rx_match (lits ''add'') (x # xs) (\<lambda>n. None) (\<lambda>s' cs. Some cs)")
    case None
    with m have "\<not> startsWith (x # xs) ''add''" by simp
    with None ih show ?thesis by (auto simp: rx_test_def)
  next
    case (Some a)
    with m have "startsWith (x # xs) ''add''" by simp
    with Some show ?thesis by (simp add: rx_test_def)
  qed
qed

lemma patterns_caps:
  assumes "p \<in> set patterns" and "rx_exec p s = Some m"
  shows "caps_ok s m"
proof -
  from rx_exec_sound[OF assms(2)] obtain pre t s' where
    s: "s = pre @ t" and r: "rx_rel p t (\<lambda>n. None) s' m" by blast
  from assms(1) r have "caps_ok t m"
    using pattern_used_caps pattern_remove_caps pattern_add_caps pattern_n_used_caps
    by (auto simp: patterns_def)
  then obtain g1 g2 pre' post where
    "m 1 = Some g1" "m 2 = Some g2" "g1 \<noteq> []" "\<forall>c\<in>set g1. is_digit c" "t = pre' @ g1 @ post"
    unfolding caps_ok_def by blast
  moreover from this s have "s = (pre @ pre') @ g1 @ post" by simp
  ultimately show ?thesis unfolding caps_ok_def by blast
qed

lemma try_patterns_cases:
  assumes "\<forall>p\<in>set ps. \<forall>m. rx_exec p s = Some m \<longrightarrow> caps_ok s m"
  shows "try_patterns ps s = NoMatch \<and> (\<forall>p\<in>set ps. rx_exec p s = None) \<or>
         (\<exists>p m g1 g2. p \<in> set ps \<and> rx_exec p s = Some m \<and> m 1 = Some g1 \<and> m 2 = Some g2 \<and>
            g1 \<noteq> [] \<and> (\<forall>c\<in>set g1. is_digit c) \<and> (\<exists>pre post. s = pre @ g1 @ post) \<and>
            parseInt g1 = Some (int (digits_value 10 g1)) \<and>
            try_patterns ps s = Call (trim g2) (int (digits_value 10 g1)) (rx_test (lits ''add'') s))"
  using assms
proof (induction ps)
  case Nil
  then show ?case by simp
next
  case (Cons p ps)
  show ?case
  proof (cases "rx_exec p s")
    case None
    from Cons.prems have "\<forall>p\<in>set ps. \<forall>m. rx_exec p s = Some m \<longrightarrow> caps_ok s m" by simp
    from Cons.IH[OF this] consider
      (a) "try_patterns ps s = NoMatch" "\<forall>p\<in>set ps. rx_exec p s = None"
    | (b) q m g1 g2 where "q \<in> set ps" "rx_exec q s = Some m" "m 1 = Some g1" "m 2 = Some g2"
        "g1 \<noteq> []" "\<forall>c\<in>set g1. is_digit c" "\<exists>pre post. s = pre @ g1 @ post"
        "parseInt g1 = Some (int (digits_value 10 g1))"
        "try_patterns ps s = Call (trim g2) (int (digits_value 10 g1)) (rx_test (lits ''add'') s)"
      by blast
    then show ?thesis
    proof cases
      case a
      with None show ?thesis by simp
    next
      case b
      from b(1) have "q \<in> set (p # ps)" by simp
      moreover from b(9) None
      have "try_patterns (p # ps) s = Call (trim g2) (int (digits_value 10 g1)) (rx_test (lits ''add'') s)"
        by simp
      ultimately show ?thesis using b(2-8) by blast
    qed
  next
    case (Some m)
    with Cons.prems have "caps_ok s m" by simp
    then obtain g1 g2 where
      h: "m 1 = Some g1" "m 2 = Some g2" "g1 \<noteq> []" "\<forall>c\<in>set g1. is_digit c"
         "\<exists>pre post. s = pre @ g1 @ post"
      unfolding caps_ok_def by blast
    from h(3,4) have "parseInt g1 = Some (int (digits_value 10 g1))" by (rule parseInt_digits)
    with Some h have
      c: "try_patterns (p # ps) s = Call (trim g2) (int (digits_value 10 g1)) (rx_test (lits ''add'') s)"
      by simp
    have "p \<in> set (p # ps)" by simp
    with Some h c \<open>parseInt g1 = Some (int (digits_value 10 g1))\<close> show ?thesis by blast
  qed
qed

lemma try_patterns_shape:
  "try_patterns patterns s = NoMatch \<and> (\<forall>p\<in>set patterns. rx_exec p s = None) \<or>
   (\<exists>p m g1 g2. p \<in> set patterns \<and> rx_exec p s = Some m \<and> m 1 = Some g1 \<and> m 2 = Some g2 \<and>
      g1 \<noteq> [] \<and> (\<forall>c\<in>set g1. is_digit c) \<and> (\<exists>pre post. s = pre @ g1 @ post) \<and>
      parseInt g1 = Some (int (digits_value 10 g1)) \<and>
      try_patterns patterns s = Call (trim g2) (int (digits_value 10 g1)) (rx_test (lits ''add'') s))"
  by (rule try_patterns_cases) (simp add: patterns_caps)


lemma try_patterns_NoMatch:
  "list_all (\<lambda>pattern. rx_exec pattern s = None) ps \<Longrightarrow> try_patterns ps s = NoMatch"
  by (induction ps) auto

section \<open>Facts about lists\<close>





section \<open>Evaluated commands\<close>

lemma xyz_unmatched:
  "list_all (\<lambda>pattern. rx_exec pattern (toLowerCase ''xyz please help'') = None) patterns"
  by code_simp

lemma adductor_call:
  "try_patterns patterns (toLowerCase ''used 3 adductor pads'') = Call ''adductor pads'' 3 True"
  by code_simp




text \<open>
  With the seed ledger of the first component, the command of the component's own hint,
  \<^verbatim>\<open>Add 10 gloves\<close>, adds to the syringes: the fragment is \<^verbatim>\<open>g\<close>, and
  \<^verbatim>\<open>syringes\<close> is the first name that contains it.
\<close>

lemma add_gloves_seed:
  "processVoiceCommand (seed_inventory 0) 1 ''Add 10 gloves'' st0 =
     Inr (st0\<lparr>inventory_st := (seed_inventory 0)[0 := (seed_inventory 0 ! 0)\<lparr>quantity := 35, lastUpdated := 1\<rparr>],
              status_st := StatusUpdated ''Added'' 10 ''Syringes'' 25 35, updatedItemId_st := Some 1\<rparr>)"
  by code_simp

lemma gloves_found: "find (item_matches ''gloves'') (seed_inventory 0) = Some (seed_inventory 0 ! 3)"
  by code_simp

lemma lidocaine_examples:
  "item_matches ''lidocaine'' lidocaine \<and> item_matches ''vials of lidocaine'' lidocaine \<and>
   item_matches ''lido'' lidocaine"
  by code_simp






section \<open>The claims\<close>



text \<open>
  C2 as stated fails in its last example: the fragment \<^verbatim>\<open>lido\<close> is not rejected,
  since the lowercased name \<^verbatim>\<open>lidocaine\<close> contains it.
\<close>

theorem lido_counterexample:
  "includes_str (toLowerCase (name lidocaine)) ''lido'' \<and> item_matches ''lido'' lidocaine"
  by code_simp

text \<open>
  C2, amended: an item matches a fragment exactly when the lowercased name of the item
  contains the fragment or the fragment contains the lowercased name; the item named
  \<^verbatim>\<open>Lidocaine\<close> matches the fragments \<^verbatim>\<open>lidocaine\<close> and
  \<^verbatim>\<open>vials of lidocaine\<close>, and it matches the fragment \<^verbatim>\<open>lido\<close> as well.
\<close>

theorem item_matches_containment:
  "(item_matches fragment inv' \<longleftrightarrow>
      (\<exists>pre post. toLowerCase (name inv') = pre @ fragment @ post) \<or>
      (\<exists>pre post. fragment = pre @ toLowerCase (name inv') @ post)) \<and>
   item_matches ''lidocaine'' lidocaine \<and> item_matches ''vials of lidocaine'' lidocaine \<and>
   item_matches ''lido'' lidocaine"
  using lidocaine_examples by (simp add: item_matches_def includes_str_iff)

text \<open>
  C3: for every transcript that one of the four patterns matches, the direction is Add
  exactly when \<^verbatim>\<open>add\<close> occurs somewhere in the lowercased transcript, whichever
  pattern matched.
\<close>

theorem direction_from_add:
  assumes "try_patterns patterns (toLowerCase command) = Call itemName quantity' isAdding"
  shows "isAdding = includes_str (toLowerCase command) ''add''"
proof -
  from try_patterns_shape[of "toLowerCase command"] assms
  have "isAdding = rx_test (lits ''add'') (toLowerCase command)" by auto
  then show ?thesis by (simp add: rx_test_add no_upper_toLowerCase)
qed

text \<open>The phrase \<^verbatim>\<open>used 3 adductor pads\<close> matches the first pattern and is an Add.\<close>

theorem direction_from_add_witness:
  "try_patterns patterns (toLowerCase ''used 3 adductor pads'') = Call ''adductor pads'' 3 True \<and>
   includes_str (toLowerCase ''used 3 adductor pads'') ''add''"
  using direction_from_add[OF adductor_call] adductor_call by simp

text \<open>
  C4, at the command of the claim: against the ledger that holds only the gloves
  (quantity 50), \<^verbatim>\<open>Add 10 gloves to inventory\<close> passes the fragment \<^verbatim>\<open>g\<close> to the
  reconciler, not \<^verbatim>\<open>gloves\<close>; the gloves still go to 60, because their name
  contains \<^verbatim>\<open>g\<close>.
\<close>

theorem add_gloves_fragment:
  "try_patterns patterns (toLowerCase ''Add 10 gloves to inventory'') = Call ''g'' 10 True \<and>
   processVoiceCommand gloves_only 1 ''Add 10 gloves to inventory''
       \<lparr>inventory_st = gloves_only, status_st = StatusIdle, updatedItemId_st = None\<rparr> =
     Inr \<lparr>inventory_st = [\<lparr>item_id = 4, name = ''Gloves'', quantity = 60, unit = ''pairs'', lowStock = 20, lastUpdated = 1\<rparr>],
          status_st = StatusUpdated ''Added'' 10 ''Gloves'' 50 60, updatedItemId_st = Some 4\<rparr>"
  by code_simp

text \<open>
  C5: when the store does not accept the quantity update for the resolved item (it
  answers with an error, or the request throws), the second component leaves the whole
  state but the status as it was, so the ledger is unchanged, and the status is
  \<open>StatusFailed\<close> with the name of that item; the ledger changes only when the store
  has accepted the write.
\<close>

theorem store_failure_keeps_ledger:
  assumes "find (item_matches itemName) inventory = Some item"
  shows "(supabase_update (item_id item) (new_quantity isAdding (quantity item) N) now \<noteq> StoreOk \<longrightarrow>
            updateInventory_supabase supabase_update inventory now itemName N isAdding st =
              st\<lparr>status_st := StatusFailed (name item)\<rparr> \<and>
            inventory_st (updateInventory_supabase supabase_update inventory now itemName N isAdding st) =
              inventory_st st) \<and>
         (inventory_st (updateInventory_supabase supabase_update inventory now itemName N isAdding st) \<noteq>
              inventory_st st \<longrightarrow>
            supabase_update (item_id item) (new_quantity isAdding (quantity item) N) now = StoreOk)"
  using assms
  by (cases "supabase_update (item_id item) (new_quantity isAdding (quantity item) N) now")
     (simp_all add: updateInventory_supabase_def Let_def)

theorem store_failure_keeps_ledger_witness:
  "find (item_matches ''gloves'') (seed_inventory 0) = Some (seed_inventory 0 ! 3) \<and>
   updateInventory_supabase (\<lambda>i q t. StoreError) (seed_inventory 0) 1 ''gloves'' 10 False st0 =
     st0\<lparr>status_st := StatusFailed ''Gloves''\<rparr> \<and>
   inventory_st (updateInventory_supabase (\<lambda>i q t. StoreError) (seed_inventory 0) 1 ''gloves'' 10 False st0) =
     inventory_st st0 \<and>
   inventory_st (updateInventory_supabase (\<lambda>i q t. StoreOk) (seed_inventory 0) 1 ''gloves'' 10 False st0) \<noteq>
     inventory_st st0"
proof -
  have n: "name (seed_inventory 0 ! 3) = ''Gloves''" by (simp add: seed_inventory_def)
  have c: "inventory_st (updateInventory_supabase (\<lambda>i q t. StoreOk) (seed_inventory 0) 1 ''gloves'' 10 False st0) \<noteq>
     inventory_st st0"
    using gloves_found
    by (simp add: updateInventory_supabase_def Let_def st0_def seed_inventory_def new_quantity_def)
  from store_failure_keeps_ledger[OF gloves_found, of "\<lambda>i q t. StoreError" False 10 1 st0]
    store_failure_keeps_ledger[OF gloves_found, of "\<lambda>i q t. StoreOk" False 10 1 st0] gloves_found n c
  show ?thesis by simp
qed

text \<open>
  C6: a transcript that none of the four patterns matches ends in the status
  \<open>StatusNotUnderstood\<close>, without an exception (the result is \<open>Inr\<close>), and the ledger
  is the one before, in both components.
\<close>

theorem unmatched_command:
  assumes "list_all (\<lambda>pattern. rx_exec pattern (toLowerCase command) = None) patterns"
  shows "processVoiceCommand inventory now command st = Inr (st\<lparr>status_st := StatusNotUnderstood\<rparr>) \<and>
         processVoiceCommand_supabase supabase_update inventory now command st =
           Inr (st\<lparr>status_st := StatusNotUnderstood\<rparr>) \<and>
         inventory_st (st\<lparr>status_st := StatusNotUnderstood\<rparr>) = inventory_st st"
  using try_patterns_NoMatch[OF assms]
  by (simp add: processVoiceCommand_def processVoiceCommand_supabase_def)

theorem unmatched_command_witness:
  "list_all (\<lambda>pattern. rx_exec pattern (toLowerCase ''xyz please help'') = None) patterns \<and>
   processVoiceCommand (seed_inventory 0) 1 ''xyz please help'' st0 = Inr (st0\<lparr>status_st := StatusNotUnderstood\<rparr>) \<and>
   inventory_st (st0\<lparr>status_st := StatusNotUnderstood\<rparr>) = seed_inventory 0"
  using unmatched_command[OF xyz_unmatched, of "seed_inventory 0" 1 st0] xyz_unmatched
  by (simp add: st0_def)








text \<open>
  C10: \<^verbatim>\<open>updateInventory\<close> lowercases the names of the items and not its argument:
  for the fragment \<^verbatim>\<open>Gloves\<close> and the item named \<^verbatim>\<open>Gloves\<close> neither
  containment holds, and the result is \<open>StatusNotFound\<close>. \<^verbatim>\<open>processVoiceCommand\<close>
  depends on the transcript only through its lowercased form, which is why the
  pipeline as a whole does not distinguish upper and lower case.
\<close>

theorem fragment_case_sensitive:
  "\<not> includes_str (toLowerCase ''Gloves'') ''Gloves'' \<and>
   \<not> includes_str ''Gloves'' (toLowerCase ''Gloves'') \<and>
   updateInventory gloves_only now ''Gloves'' N isAdding st =
     st\<lparr>status_st := StatusNotFound ''Gloves'' ''Gloves''\<rparr> \<and>
   updateInventory_supabase supabase_update gloves_only now ''Gloves'' N isAdding st =
     st\<lparr>status_st := StatusNotFound ''Gloves'' ''Gloves''\<rparr> \<and>
   (toLowerCase command1 = toLowerCase command2 \<longrightarrow>
      processVoiceCommand inventory now command1 st = processVoiceCommand inventory now command2 st \<and>
      processVoiceCommand_supabase supabase_update inventory now command1 st =
        processVoiceCommand_supabase supabase_update inventory now command2 st) \<and>
   processVoiceCommand inventory now (toLowerCase command1) st = processVoiceCommand inventory now command1 st"
proof -
  have a: "\<not> includes_str (toLowerCase ''Gloves'') ''Gloves''"
    and b: "\<not> includes_str ''Gloves'' (toLowerCase ''Gloves'')"
    and f: "find (item_matches ''Gloves'') gloves_only = None"
    and j: "join '', '' (map name gloves_only) = ''Gloves''"
    by code_simp+
  from a b f j show ?thesis
    by (simp add: updateInventory_def updateInventory_supabase_def processVoiceCommand_def
        processVoiceCommand_supabase_def toLowerCase_idem Let_def)
qed

theorem fragment_case_sensitive_witness:
  "toLowerCase ''REMOVE 3 Gloves'' = toLowerCase ''remove 3 gloves'' \<and>
   processVoiceCommand gloves_only 1 ''REMOVE 3 Gloves'' \<lparr>inventory_st = gloves_only, status_st = StatusIdle, updatedItemId_st = None\<rparr> =
     processVoiceCommand gloves_only 1 ''remove 3 gloves'' \<lparr>inventory_st = gloves_only, status_st = StatusIdle, updatedItemId_st = None\<rparr> \<and>
   processVoiceCommand gloves_only 1 ''REMOVE 3 Gloves'' \<lparr>inventory_st = gloves_only, status_st = StatusIdle, updatedItemId_st = None\<rparr> =
     Inr \<lparr>inventory_st = [\<lparr>item_id = 4, name = ''Gloves'', quantity = 47, unit = ''pairs'', lowStock = 20, lastUpdated = 1\<rparr>],
          status_st = StatusUpdated ''Used'' 3 ''Gloves'' 50 47, updatedItemId_st = Some 4\<rparr> \<and>
   updateInventory gloves_only 1 ''Gloves'' 3 False \<lparr>inventory_st = gloves_only, status_st = StatusIdle, updatedItemId_st = None\<rparr> =
     \<lparr>inventory_st = gloves_only, status_st = StatusNotFound ''Gloves'' ''Gloves'', updatedItemId_st = None\<rparr>"
proof -
  have l: "toLowerCase ''REMOVE 3 Gloves'' = toLowerCase ''remove 3 gloves''" by code_simp
  have r: "processVoiceCommand gloves_only 1 ''REMOVE 3 Gloves'' \<lparr>inventory_st = gloves_only, status_st = StatusIdle, updatedItemId_st = None\<rparr> =
     Inr \<lparr>inventory_st = [\<lparr>item_id = 4, name = ''Gloves'', quantity = 47, unit = ''pairs'', lowStock = 20, lastUpdated = 1\<rparr>],
          status_st = StatusUpdated ''Used'' 3 ''Gloves'' 50 47, updatedItemId_st = Some 4\<rparr>"
    by code_simp
  from fragment_case_sensitive[where now = 1 and N = 3 and isAdding = False
      and st = "\<lparr>inventory_st = gloves_only, status_st = StatusIdle, updatedItemId_st = None\<rparr>"
      and supabase_update = "\<lambda>i q t. StoreOk" and ?command1.0 = "''REMOVE 3 Gloves''"
      and ?command2.0 = "''remove 3 gloves''" and inventory = gloves_only] l r
  show ?thesis by simp
qed

end
